theory Spec2Isabelle
  imports Main "HOL-Library.Word"
begin

unbundle bit_operations_syntax

section \<open>The shared-memory queue of msgq_modern.h and msgq_modern.cc\<close>

text \<open>
  The queue lives in a file under /dev/shm that every handle maps: a header of atomic
  cursors followed by the data region. The model keeps the file as a record (header
  fields and data bytes) and passes it through every operation, so two handles of one
  name see one state. The source's \<open>size_t\<close> and \<open>uint64_t\<close> are 64-bit words,
  \<open>uint32_t\<close> is a 32-bit word, \<open>int reader_id_\<close> is an \<open>int\<close> read off a
  32-bit word with \<open>sint\<close>.
\<close>

type_synonym u64 = "64 word"
type_synonym u32 = "32 word"
type_synonym byte = "8 word"

subsection \<open>Constants and PackedPointer\<close>

definition NUM_READERS :: nat where
  "NUM_READERS = 15"

definition DEFAULT_SEGMENT_SIZE :: u64 where
  "DEFAULT_SEGMENT_SIZE = 10 * 1024 * 1024"

definition DEFAULT_TIMEOUT_MS :: int where
  "DEFAULT_TIMEOUT_MS = 100"

text \<open>\<open>align_to_8(n) = (n + 7) & ~7ULL\<close> on \<open>size_t\<close>.\<close>

definition align_to_8 :: "u64 \<Rightarrow> u64" where
  "align_to_8 n = (n + 7) AND NOT 7"

text \<open>
  \<open>PackedPointer(cycle, offset)\<close> stores \<open>(uint64_t(cycle) << 32) | offset\<close>;
  \<open>cycle()\<close> is the high half and \<open>offset()\<close> the low half of the raw value.
  A packed pointer is its raw 64-bit value.
\<close>

definition PackedPointer :: "u32 \<Rightarrow> u32 \<Rightarrow> u64" where
  "PackedPointer c off = push_bit 32 (ucast c) OR ucast off"

definition cycle :: "u64 \<Rightarrow> u32" where
  "cycle v = ucast (drop_bit 32 v)"

definition offset :: "u64 \<Rightarrow> u32" where
  "offset v = ucast (v AND 0xFFFFFFFF)"

subsection \<open>Errors\<close>

text \<open>
  Every \<open>throw MessageQueueError(...)\<close> of msgq_modern.cc is one constructor, named
  after its message. The last three are not exceptions of the source: they stand for the
  undefined behaviour of an array index outside \<open>read_index[0..14]\<close>, of a
  \<open>memcpy\<close> outside the mapped data region or the source span, and of \<open>% size_\<close>
  with \<open>size_ = 0\<close>, so that the model never returns a made-up value there.
\<close>

datatype MessageQueueError =
    OpenFailed
  | TruncateFailed
  | MmapFailed
  | QueueNotInitialized
  | NotPublisher
  | MessageTooLarge
  | NotSubscriber
  | MaxSubscribers
  | OutOfBounds int
  | MemoryFault
  | DivideByZero

subsection \<open>The mapped file and the handle\<close>

text \<open>\<open>struct Header\<close> of \<open>Queue::Impl\<close>; \<open>read_index\<close> has \<open>NUM_READERS\<close> entries.\<close>

record Header =
  write_index :: u64
  read_index :: "u64 list"
  num_readers :: u32
  reader_uid :: u32
  segment_size :: u64

definition sizeof_Header :: nat where
  "sizeof_Header = 144"

record shm_file =
  header :: Header
  data :: "byte list"

type_synonym shm_fs = "string \<rightharpoonup> shm_file"

text \<open>
  The fields of \<open>Queue::Impl\<close> that are not handles of the mapping. A name
  cannot end in an underscore here, so \<open>name_\<close>, \<open>size_\<close>,
  \<open>reader_id_\<close> and \<open>is_publisher_\<close> carry the prefix \<open>impl_\<close> instead.
\<close>

record Impl =
  impl_name :: string
  impl_size :: u64
  impl_reader_id :: int
  impl_is_publisher :: bool

text \<open>\<open>Queue\<close> owns a \<open>unique_ptr<Impl>\<close>, null after a move.\<close>

type_synonym Queue = "Impl option"

subsection \<open>Opening the segment\<close>

text \<open>
  The operating system, as far as \<open>init_shared_memory\<close> uses it. \<open>open\<close> with
  \<open>O_CREAT\<close> makes an empty file when there is none. \<open>ftruncate\<close> sets the length
  of the file in bytes: it cuts the file, or extends it with zero bytes. The first
  \<open>sizeof(Header)\<close> bytes of the file are the header, little-endian, the rest is the
  data region. A file that ends inside its header (an empty file is one) is kept as
  the header with every byte past the end of the file zero, and no data: these are the
  bytes a later \<open>ftruncate\<close> past the header gives. Which call fails is the
  environment's choice (\<open>os_fault\<close>); besides, \<open>ftruncate\<close> takes its length as
  a signed \<open>off_t\<close> and rejects a negative one, and \<open>mmap\<close> rejects the length 0.
\<close>

datatype os_fault = NoFault | OpenFails | FtruncateFails | MmapFails

definition zero_Header :: Header where
  "zero_Header = \<lparr>write_index = 0, read_index = replicate NUM_READERS 0,
     num_readers = 0, reader_uid = 0, segment_size = 0\<rparr>"

definition empty_file :: shm_file where
  "empty_file = \<lparr>header = zero_Header, data = []\<rparr>"

definition os_open :: "shm_fs \<Rightarrow> string \<Rightarrow> shm_file" where
  "os_open fs path = (case fs path of None \<Rightarrow> empty_file | Some f \<Rightarrow> f)"

text \<open>
  The header of a file cut to \<open>n\<close> bytes. \<open>write_index\<close> is at byte 0,
  \<open>read_index[i]\<close> at byte \<open>8 + 8 * i\<close>, \<open>num_readers\<close> at 128,
  \<open>reader_uid\<close> at 132 and \<open>segment_size\<close> at 136; a field keeps its low bytes
  that lie before byte \<open>n\<close>.
\<close>

definition cut_header :: "nat \<Rightarrow> Header \<Rightarrow> Header" where
  "cut_header n h =
     \<lparr>write_index = take_bit (8 * n) (write_index h),
      read_index =
        map (\<lambda>(i, v). take_bit (8 * (n - (8 + 8 * i))) v) (enumerate 0 (read_index h)),
      num_readers = take_bit (8 * (n - 128)) (num_readers h),
      reader_uid = take_bit (8 * (n - 132)) (reader_uid h),
      segment_size = take_bit (8 * (n - 136)) (segment_size h)\<rparr>"

definition os_ftruncate :: "shm_file \<Rightarrow> nat \<Rightarrow> shm_file" where
  "os_ftruncate f n =
     (if sizeof_Header \<le> n
      then f\<lparr>data := take (n - sizeof_Header) (data f) @
               replicate (n - sizeof_Header - length (data f)) 0\<rparr>
      else \<lparr>header = cut_header n (header f), data = []\<rparr>)"

text \<open>
  \<open>Queue::Impl::init_shared_memory\<close>: open or create, resize to
  \<open>total_size = sizeof(Header) + size_\<close>, map. The sum is a \<open>size_t\<close> sum and
  wraps around. The result is the file system afterwards and either the error thrown
  or the handle. Nothing compares \<open>size_\<close> with the size of an existing file, and
  nothing writes \<open>segment_size\<close>.
\<close>

definition init_shared_memory ::
    "os_fault \<Rightarrow> shm_fs \<Rightarrow> Impl \<Rightarrow> shm_fs \<times> (MessageQueueError + Impl)" where
  "init_shared_memory os fs q =
     (if os = OpenFails then (fs, Inl OpenFailed)
      else
        let f = os_open fs (impl_name q);
            fs1 = fs(impl_name q \<mapsto> f);
            total_size = (of_nat sizeof_Header :: u64) + impl_size q
        in if os = FtruncateFails \<or> sint total_size < 0
           then (fs1, Inl TruncateFailed)
           else
             let fs2 = fs(impl_name q \<mapsto> os_ftruncate f (unat total_size))
             in if os = MmapFails \<or> total_size = 0 then (fs2, Inl MmapFailed)
                else (fs2, Inr q))"

text \<open>The constructor \<open>Impl(name, size)\<close> and the factory \<open>Queue::create\<close>.\<close>

definition Impl_new ::
    "os_fault \<Rightarrow> shm_fs \<Rightarrow> string \<Rightarrow> u64 \<Rightarrow> shm_fs \<times> (MessageQueueError + Impl)" where
  "Impl_new os fs name sz =
     init_shared_memory os fs
       \<lparr>impl_name = name, impl_size = align_to_8 sz, impl_reader_id = - 1,
         impl_is_publisher = False\<rparr>"

definition Queue_create ::
    "os_fault \<Rightarrow> shm_fs \<Rightarrow> string \<Rightarrow> u64 \<Rightarrow> shm_fs \<times> (MessageQueueError + Queue)" where
  "Queue_create os fs name sz =
     (case Impl_new os fs name sz of
        (fs', Inl e) \<Rightarrow> (fs', Inl e)
      | (fs', Inr q) \<Rightarrow> (fs', Inr (Some q)))"

subsection \<open>Sending\<close>

text \<open>
  \<open>memcpy(mem + dst, src + from, n)\<close> into the data region: the bytes written, or
  \<open>MemoryFault\<close> when the copy leaves the region or the source.
\<close>

definition memcpy ::
    "byte list \<Rightarrow> nat \<Rightarrow> byte list \<Rightarrow> nat \<Rightarrow> nat \<Rightarrow> MessageQueueError + byte list" where
  "memcpy mem dst src from n =
     (if dst + n \<le> length mem \<and> from + n \<le> length src
      then Inr (take dst mem @ take n (drop from src) @ drop (dst + n) mem)
      else Inl MemoryFault)"

text \<open>
  \<open>Queue::Impl::send_message\<close>. The payload is copied raw at the write offset, split in
  two when it crosses the end of the region; no frame header is written. The new write
  pointer has the cycle counter plus one and the offset \<open>(offset + size) % size_\<close>,
  truncated to 32 bits by the constructor. All sums are \<open>size_t\<close> sums.
\<close>

definition send_message ::
    "Impl \<Rightarrow> shm_file \<Rightarrow> byte list \<Rightarrow> MessageQueueError + shm_file" where
  "send_message q f bytes =
     (let n = (of_nat (length bytes) :: u64) in
      if \<not> impl_is_publisher q then Inl NotPublisher
      else if impl_size q < n then Inl MessageTooLarge
      else
        let write_ptr = write_index (header f);
            off = (ucast (offset write_ptr) :: u64);
            copied =
              (if impl_size q < off + n
               then (case memcpy (data f) (unat off) bytes 0 (unat (impl_size q - off)) of
                       Inl e \<Rightarrow> Inl e
                     | Inr d \<Rightarrow>
                         memcpy d 0 bytes (unat (impl_size q - off)) (unat (n - (impl_size q - off))))
               else memcpy (data f) (unat off) bytes 0 (unat n))
        in case copied of
             Inl e \<Rightarrow> Inl e
           | Inr d \<Rightarrow>
               if impl_size q = 0 then Inl DivideByZero
               else Inr (f\<lparr>data := d,
                      header := (header f)\<lparr>write_index :=
                        PackedPointer (cycle write_ptr + 1) (ucast ((off + n) mod impl_size q))\<rparr>\<rparr>))"

subsection \<open>Receiving\<close>

text \<open>\<open>header_->read_index[i]\<close> for an \<open>int i\<close>: load and store.\<close>

definition load_read_index :: "Header \<Rightarrow> int \<Rightarrow> MessageQueueError + u64" where
  "load_read_index h i =
     (if 0 \<le> i \<and> i < int NUM_READERS then Inr (read_index h ! nat i) else Inl (OutOfBounds i))"

definition store_read_index :: "Header \<Rightarrow> int \<Rightarrow> u64 \<Rightarrow> MessageQueueError + Header" where
  "store_read_index h i v =
     (if 0 \<le> i \<and> i < int NUM_READERS
      then Inr (h\<lparr>read_index := (read_index h)[nat i := v]\<rparr>)
      else Inl (OutOfBounds i))"

text \<open>
  \<open>Queue::Impl::receive_message\<close>. A message is its bytes. The result is always the
  default-constructed message: when the reader's pointer differs from the write pointer
  the reader's pointer is set to the write pointer, and no byte of the data region is
  read. \<open>timeout_ms\<close> and \<open>conflate\<close> are not used.
\<close>

definition receive_message ::
    "Impl \<Rightarrow> shm_file \<Rightarrow> int \<Rightarrow> bool \<Rightarrow> MessageQueueError + (byte list \<times> shm_file)" where
  "receive_message q f timeout_ms conflate =
     (if impl_reader_id q < 0 then Inl NotSubscriber
      else
        case load_read_index (header f) (impl_reader_id q) of
          Inl e \<Rightarrow> Inl e
        | Inr read_ptr \<Rightarrow>
            let write_ptr = write_index (header f) in
            if read_ptr = write_ptr then Inr ([], f)
            else
              (case store_read_index (header f) (impl_reader_id q) write_ptr of
                 Inl e \<Rightarrow> Inl e
               | Inr h \<Rightarrow> Inr ([], f\<lparr>header := h\<rparr>)))"

subsection \<open>The public interface of Queue\<close>

definition Queue_send :: "Queue \<Rightarrow> shm_file \<Rightarrow> byte list \<Rightarrow> MessageQueueError + shm_file" where
  "Queue_send q f bytes =
     (case q of None \<Rightarrow> Inl QueueNotInitialized | Some i \<Rightarrow> send_message i f bytes)"

definition Queue_recv ::
    "Queue \<Rightarrow> shm_file \<Rightarrow> int \<Rightarrow> bool \<Rightarrow> MessageQueueError + (byte list \<times> shm_file)" where
  "Queue_recv q f timeout_ms conflate =
     (case q of
        None \<Rightarrow> Inl QueueNotInitialized
      | Some i \<Rightarrow> receive_message i f timeout_ms conflate)"

text \<open>
  \<open>Queue::msg_ready\<close> loads \<open>read_index[reader_id_]\<close> with no check of
  \<open>reader_id_\<close>. \<open>msg_ready_index\<close> is the index of that load.
\<close>

definition msg_ready_index :: "Impl \<Rightarrow> int" where
  "msg_ready_index i = impl_reader_id i"

definition msg_ready :: "Queue \<Rightarrow> shm_file \<Rightarrow> MessageQueueError + bool" where
  "msg_ready q f =
     (case q of
        None \<Rightarrow> Inr False
      | Some i \<Rightarrow>
          (case load_read_index (header f) (msg_ready_index i) of
             Inl e \<Rightarrow> Inl e
           | Inr read_ptr \<Rightarrow> Inr (read_ptr \<noteq> write_index (header f))))"

definition init_publisher :: "Queue \<Rightarrow> MessageQueueError + Queue" where
  "init_publisher q =
     (case q of
        None \<Rightarrow> Inl QueueNotInitialized
      | Some i \<Rightarrow> Inr (Some (i\<lparr>impl_is_publisher := True\<rparr>)))"

text \<open>
  \<open>Queue::init_subscriber\<close>: \<open>reader_id_ = num_readers++\<close>, then the check against
  \<open>NUM_READERS\<close>. The exception leaves after both writes, so the result carries the
  handle and the file as they are when the call ends, and the error if one was thrown.
  The comparison \<open>reader_id_ >= NUM_READERS\<close> is between an \<open>int\<close> and a
  \<open>size_t\<close>: the \<open>int\<close> is converted to 64 bits unsigned. The local
  \<open>reader_uid\<close> computed from \<open>getpid()\<close> is never stored, and no cursor is
  written.
\<close>

definition init_subscriber ::
    "Queue \<Rightarrow> shm_file \<Rightarrow> bool \<Rightarrow> Queue \<times> shm_file \<times> MessageQueueError option" where
  "init_subscriber q f conflate =
     (case q of
        None \<Rightarrow> (q, f, Some QueueNotInitialized)
      | Some i \<Rightarrow>
          let rid = sint (num_readers (header f));
              f' = f\<lparr>header := (header f)\<lparr>num_readers := num_readers (header f) + 1\<rparr>\<rparr>;
              i' = i\<lparr>impl_reader_id := rid\<rparr>
          in if (of_nat NUM_READERS :: u64) \<le> word_of_int rid
             then (Some i', f', Some MaxSubscribers)
             else (Some i', f', None))"

definition Queue_num_readers :: "Queue \<Rightarrow> shm_file \<Rightarrow> u64" where
  "Queue_num_readers q f = (case q of None \<Rightarrow> 0 | Some i \<Rightarrow> ucast (num_readers (header f)))"

text \<open>
  \<open>Queue::all_readers_updated\<close>: the loop \<open>for (i = 0; i < num_readers; ++i)\<close>,
  returning false at the first cursor that differs from the write pointer.
\<close>

function all_readers_loop :: "Header \<Rightarrow> u64 \<Rightarrow> nat \<Rightarrow> MessageQueueError + bool" where
  "all_readers_loop h write_ptr i =
     (if i < unat (num_readers h)
      then (case load_read_index h (int i) of
              Inl e \<Rightarrow> Inl e
            | Inr read_ptr \<Rightarrow>
                if read_ptr \<noteq> write_ptr then Inr False
                else all_readers_loop h write_ptr (Suc i))
      else Inr True)"
  by pat_completeness auto
termination
  by (relation "measure (\<lambda>(h, w, i). unat (num_readers h) - i)") auto

definition all_readers_updated :: "Queue \<Rightarrow> shm_file \<Rightarrow> MessageQueueError + bool" where
  "all_readers_updated q f =
     (case q of
        None \<Rightarrow> Inr False
      | Some i \<Rightarrow> all_readers_loop (header f) (write_index (header f)) 0)"

subsection \<open>Scenarios\<close>

text \<open>
  The handle \<open>Queue::create\<close> leaves, the handle \<open>init_publisher\<close> makes of it,
  and the file a first \<open>Queue::create\<close> leaves: the zero header and \<open>n\<close> zero
  bytes of data.
\<close>

definition created_handle :: "u64 \<Rightarrow> Impl" where
  "created_handle sz =
     \<lparr>impl_name = ''chan'', impl_size = sz, impl_reader_id = - 1, impl_is_publisher = False\<rparr>"

definition publisher_handle :: "u64 \<Rightarrow> Impl" where
  "publisher_handle sz = (created_handle sz)\<lparr>impl_is_publisher := True\<rparr>"

definition fresh_segment :: "nat \<Rightarrow> shm_file" where
  "fresh_segment n = os_ftruncate empty_file (sizeof_Header + n)"

text \<open>The same file once the write pointer has reached cycle \<open>c\<close>, offset \<open>off\<close>.\<close>

definition segment_at :: "nat \<Rightarrow> u32 \<Rightarrow> u32 \<Rightarrow> shm_file" where
  "segment_at n c off =
     (fresh_segment n)\<lparr>header := zero_Header\<lparr>write_index := PackedPointer c off\<rparr>\<rparr>"

text \<open>
  The run of \<open>example_basic\<close> (msgq_examples.cc) on an empty /dev/shm: a publisher and
  a subscriber are created on one name, the publisher sends \<open>b\<close>, the subscriber
  receives once. The result is the bytes of the message received and the file.
\<close>

definition framing_roundtrip ::
    "u64 \<Rightarrow> byte list \<Rightarrow> MessageQueueError + (byte list \<times> shm_file)" where
  "framing_roundtrip sz b =
     (case Queue_create NoFault Map.empty ''chan'' sz of
        (fs1, Inl e) \<Rightarrow> Inl e
      | (fs1, Inr pub0) \<Rightarrow>
     (case init_publisher pub0 of
        Inl e \<Rightarrow> Inl e
      | Inr pub \<Rightarrow>
     (case Queue_create NoFault fs1 ''chan'' sz of
        (fs2, Inl e) \<Rightarrow> Inl e
      | (fs2, Inr sub0) \<Rightarrow>
     (case init_subscriber sub0 (os_open fs2 ''chan'') False of
        (sub, f1, Some e) \<Rightarrow> Inl e
      | (sub, f1, None) \<Rightarrow>
     (case Queue_send pub f1 b of
        Inl e \<Rightarrow> Inl e
      | Inr f2 \<Rightarrow> Queue_recv sub f2 DEFAULT_TIMEOUT_MS False)))))"

text \<open>
  A subscriber that joins late: the publisher is created and sends \<open>b\<close> first, then the
  subscriber is created and registers. The result is the subscriber's handle and the file.
\<close>

definition late_join :: "u64 \<Rightarrow> byte list \<Rightarrow> MessageQueueError + (Queue \<times> shm_file)" where
  "late_join sz b =
     (case Queue_create NoFault Map.empty ''chan'' sz of
        (fs1, Inl e) \<Rightarrow> Inl e
      | (fs1, Inr pub0) \<Rightarrow>
     (case init_publisher pub0 of
        Inl e \<Rightarrow> Inl e
      | Inr pub \<Rightarrow>
     (case Queue_send pub (os_open fs1 ''chan'') b of
        Inl e \<Rightarrow> Inl e
      | Inr f1 \<Rightarrow>
     (case Queue_create NoFault (fs1(''chan'' \<mapsto> f1)) ''chan'' sz of
        (fs2, Inl e) \<Rightarrow> Inl e
      | (fs2, Inr sub0) \<Rightarrow>
     (case init_subscriber sub0 (os_open fs2 ''chan'') False of
        (sub, f2, Some e) \<Rightarrow> Inl e
      | (sub, f2, None) \<Rightarrow> Inr (sub, f2))))))"

text \<open>
  The wording of the specification for \<open>all_readers_updated\<close>, to compare with the
  code: a slot is occupied when it has been claimed (its index is below
  \<open>num_readers\<close>) and its owner is alive; the result is true iff the cursor of every
  occupied slot equals the write cursor. The code keeps no owner per slot, so whether
  the owner of slot \<open>i\<close> is alive is the parameter \<open>alive i\<close>.
\<close>

definition spec_all_readers_updated :: "(nat \<Rightarrow> bool) \<Rightarrow> Header \<Rightarrow> bool" where
  "spec_all_readers_updated alive h =
     list_all (\<lambda>i. if alive i then read_index h ! i = write_index h else True)
       [0..<unat (num_readers h)]"

section \<open>Events (event_modern.h) and the fake subscriber (impl_fake_modern.h)\<close>

subsection \<open>The operating system's side of an eventfd\<close>

text \<open>
  An event is a file descriptor of an eventfd: a kernel counter that \<open>write\<close>
  increments, that \<open>read\<close> returns and resets, and that polls readable while it is
  not zero. The state of the operating system is the counter of every open eventfd.
  \<open>os_ppoll\<close> is \<open>ppoll\<close> on a list of descriptors, all asking for \<open>POLLIN\<close>,
  while the counters stay as they are: the number of descriptors with an answer and the
  answers; \<open>-1\<close> when nothing is ready and a signal that the mask lets through
  arrives; \<open>0\<close> when nothing is ready and the timeout runs out; and no return at all
  when nothing is ready and there is no timeout. A descriptor that is not open answers
  \<open>POLLNVAL\<close>, a negative one is ignored.
\<close>

type_synonym eventfds = "int \<rightharpoonup> nat"

datatype revents = POLLIN | POLLNVAL | NoEvent

datatype ppoll_result = Polled int "revents list" | Blocked

definition os_revents :: "eventfds \<Rightarrow> int \<Rightarrow> revents" where
  "os_revents os fd =
     (if fd < 0 then NoEvent
      else case os fd of
             None \<Rightarrow> POLLNVAL
           | Some c \<Rightarrow> if 0 < c then POLLIN else NoEvent)"

definition os_ppoll :: "eventfds \<Rightarrow> bool \<Rightarrow> int list \<Rightarrow> int \<Rightarrow> ppoll_result" where
  "os_ppoll os signal fds timeout_sec =
     (let rs = map (os_revents os) fds;
          n = length (filter (\<lambda>r. r \<noteq> NoEvent) rs)
      in if 0 < n then Polled (int n) rs
         else if signal then Polled (- 1) rs
         else if timeout_sec < 0 then Blocked
         else Polled 0 rs)"

subsection \<open>Event\<close>

text \<open>
  The exceptions of event_modern.h, one constructor for each message. A call that can
  block has three outcomes: it returns, it throws, or it does not return while the
  counters stay as they are.
\<close>

datatype EventError =
    InvalidFd
  | SetFailed
  | ClearFailed
  | EventTimedOut
  | EventPollFailed
  | NoEventsToWaitFor
  | AllEventsInvalid
  | PollTimedOut
  | NoEventsReady

datatype 'a outcome = Returns 'a | Throws EventError | Blocks

datatype Event = Event (event_fd: int)

definition is_valid :: "Event \<Rightarrow> bool" where
  "is_valid e = (0 \<le> event_fd e)"

text \<open>
  \<open>Event::set\<close> writes 1: the counter is incremented; the write fails on a descriptor
  that is not open and, the descriptor being non-blocking, when the counter is at its
  maximum \<open>2^64 - 2\<close>.
\<close>

definition Event_set :: "eventfds \<Rightarrow> Event \<Rightarrow> EventError + eventfds" where
  "Event_set os e =
     (if event_fd e < 0 then Inl InvalidFd
      else case os (event_fd e) of
             None \<Rightarrow> Inl SetFailed
           | Some c \<Rightarrow>
               if c + 1 \<le> 2 ^ 64 - 2 then Inr (os(event_fd e \<mapsto> c + 1)) else Inl SetFailed)"

text \<open>
  \<open>Event::clear\<close> reads the counter, which resets it; the read fails on a descriptor
  that is not open and when the counter is zero. The value returned is the counter cast
  to \<open>int\<close>.
\<close>

definition Event_clear :: "eventfds \<Rightarrow> Event \<Rightarrow> EventError + (int \<times> eventfds)" where
  "Event_clear os e =
     (if event_fd e < 0 then Inl InvalidFd
      else case os (event_fd e) of
             None \<Rightarrow> Inl ClearFailed
           | Some c \<Rightarrow>
               if c = 0 then Inl ClearFailed
               else Inr (sint (of_nat c :: 32 word), os(event_fd e \<mapsto> 0)))"

definition Event_wait :: "eventfds \<Rightarrow> bool \<Rightarrow> Event \<Rightarrow> int \<Rightarrow> unit outcome" where
  "Event_wait os signal e timeout_sec =
     (if event_fd e < 0 then Throws InvalidFd
      else case os_ppoll os signal [event_fd e] timeout_sec of
             Blocked \<Rightarrow> Blocks
           | Polled event_count rs \<Rightarrow>
               if event_count = 0 then Throws EventTimedOut
               else if event_count < 0 then Throws EventPollFailed
               else Returns ())"

definition peek :: "eventfds \<Rightarrow> Event \<Rightarrow> bool" where
  "peek os e =
     (if event_fd e < 0 then False
      else case os_ppoll os False [event_fd e] 0 of
             Blocked \<Rightarrow> False
           | Polled event_count rs \<Rightarrow> event_count \<noteq> 0)"

text \<open>
  \<open>Event::wait_for_one\<close>. The \<open>pollfd\<close> vector holds the descriptors of the valid
  events only; the last loop returns the index in that vector of the first entry with
  \<open>POLLIN\<close>.
\<close>

fun first_pollin :: "revents list \<Rightarrow> nat \<Rightarrow> nat option" where
  "first_pollin [] i = None"
| "first_pollin (r # rs) i = (if r = POLLIN then Some i else first_pollin rs (Suc i))"

definition wait_for_one :: "eventfds \<Rightarrow> bool \<Rightarrow> Event list \<Rightarrow> int \<Rightarrow> int outcome" where
  "wait_for_one os signal events timeout_sec =
     (if events = [] then Throws NoEventsToWaitFor
      else
        let fds = map event_fd (filter is_valid events) in
        if fds = [] then Throws AllEventsInvalid
        else
          case os_ppoll os signal fds timeout_sec of
            Blocked \<Rightarrow> Blocks
          | Polled event_count rs \<Rightarrow>
              if event_count = 0 then Throws PollTimedOut
              else if event_count < 0 then Throws EventPollFailed
              else (case first_pollin rs 0 of
                      Some i \<Rightarrow> Returns (int i)
                    | None \<Rightarrow> Throws NoEventsReady))"

subsection \<open>FakeSubSocket\<close>

text \<open>
  \<open>struct EventState\<close>: \<open>fds\<close> is indexed by \<open>EventPurpose\<close>. A
  \<open>FakeSubSocket<TSubSocket>\<close> is its three pointers, null until \<open>connect\<close>, and
  the \<open>TSubSocket\<close> it extends; \<open>state\<close> is the copy of the mapped
  \<open>EventState\<close> that \<open>connect\<close> makes.
\<close>

datatype EventPurpose = RECV_CALLED | RECV_READY

record EventState =
  fds :: "EventPurpose \<Rightarrow> int"
  enabled :: bool





text \<open>
  \<open>FakeSubSocket::receive\<close> as the calls it makes, in order: the three event calls
  under the tests of the source, then \<open>TSubSocket::receive(non_blocking)\<close>, whose
  result it returns.
\<close>

datatype call = EventSet Event | EventWait Event | EventClear Event | BaseReceive bool


subsection \<open>The events of the fake subscriber\<close>

text \<open>
  Modelled from the spec: impl_fake_modern.h takes its \<open>Event\<close> from msgq/event.h,
  which is not among these sources, so what \<open>set\<close>, \<open>wait\<close> and \<open>clear\<close> do
  for \<open>FakeSubSocket\<close> is taken from the specification (4.4 and 7), not from
  event_modern.h. Of that \<open>Event\<close> the model keeps the descriptor it is constructed
  from. An event is a kernel counter behind a descriptor; the descriptors are
  non-blocking. The failures are the error kinds of the specification; an operation on a
  descriptor that is not open fails with IO. A wait has a third outcome: it stays
  suspended while the counters stay as they are.
\<close>

datatype EventPairError = IO | Timeout | Interrupted

datatype 'a event_result = Completes 'a | Fails EventPairError | Suspended

text \<open>
  Modelled from the spec: \<open>set()\<close> increments the counter (4.4).
\<close>

definition EventPair_set :: "eventfds \<Rightarrow> Event \<Rightarrow> eventfds event_result" where
  "EventPair_set os e =
     (case os (event_fd e) of
        None \<Rightarrow> Fails IO
      | Some c \<Rightarrow> Completes (os(event_fd e \<mapsto> c + 1)))"

text \<open>
  Modelled from the spec: \<open>clear()\<close> reads and returns the accumulated count,
  resetting it to zero, and fails if no value is currently set (4.4).
\<close>

definition EventPair_clear :: "eventfds \<Rightarrow> Event \<Rightarrow> (nat \<times> eventfds) event_result" where
  "EventPair_clear os e =
     (case os (event_fd e) of
        None \<Rightarrow> Fails IO
      | Some c \<Rightarrow> if c = 0 then Fails IO else Completes (c, os(event_fd e \<mapsto> 0)))"

text \<open>
  Modelled from the spec: \<open>wait(timeout_sec)\<close> blocks on the descriptor becoming
  readable, that is until the counter is not zero; a timeout below 0 is infinite; it
  fails with Timeout when the deadline elapses and with Interrupted when a signal that
  the mask lets through fires (4.4).
\<close>

definition EventPair_wait :: "eventfds \<Rightarrow> bool \<Rightarrow> Event \<Rightarrow> int \<Rightarrow> unit event_result" where
  "EventPair_wait os signal e timeout_sec =
     (case os (event_fd e) of
        None \<Rightarrow> Fails IO
      | Some c \<Rightarrow>
          if 0 < c then Completes ()
          else if signal then Fails Interrupted
          else if timeout_sec < 0 then Suspended
          else Fails Timeout)"

subsection \<open>A subscriber and a driver running side by side\<close>


text \<open>
  A process runs its sequence of calls (\<open>body\<close>) again and again: \<open>pc\<close> is the next
  call of the current round, \<open>rounds\<close> counts the rounds completed. A failure ends
  the process. A suspended call leaves the process where it is.
\<close>

record process =
  body :: "call list"
  pc :: nat
  rounds :: nat
  failed :: "EventPairError option"




record system =
  efds :: eventfds
  sub :: process
  drv :: process





subsection \<open>The invariants of the rendezvous\<close>








section \<open>Properties of the queue\<close>

subsection \<open>Packed pointers and word arithmetic\<close>

lemma low_mask: "(0xFFFFFFFF :: u64) = mask 32"
  by (simp add: mask_eq_exp_minus_1)

lemma cycle_PackedPointer: "cycle (PackedPointer c off) = c"
  unfolding cycle_def PackedPointer_def
  by (rule bit_word_eqI) (auto simp add: bit_simps dest: bit_imp_le_length)

lemma offset_PackedPointer: "offset (PackedPointer c off) = off"
  unfolding offset_def PackedPointer_def low_mask
  by (rule bit_word_eqI) (auto simp add: bit_simps dest: bit_imp_le_length)

lemma memcpy_ok:
  "dst + n \<le> length mem \<Longrightarrow> from + n \<le> length src \<Longrightarrow>
   memcpy mem dst src from n = Inr (take dst mem @ take n (drop from src) @ drop (dst + n) mem)"
  by (simp add: memcpy_def)

lemma memcpy_length:
  "memcpy mem dst src from n = Inr d \<Longrightarrow> length d = length mem"
  by (auto simp add: memcpy_def split: if_splits)

lemma unat_ucast_u32: "unat (ucast (w :: u32) :: u64) = unat w"
proof -
  have "unat w < 2 ^ 32" using unsigned_less [of w, where 'a = nat] by simp
  then have "unat w < 2 ^ 64" by simp
  then show ?thesis by (simp add: unsigned_ucast_eq take_bit_nat_eq_self)
qed

lemma send_message_write_index:
  assumes "send_message q f b = Inr f'"
  shows "write_index (header f') =
    PackedPointer (cycle (write_index (header f)) + 1)
      (ucast ((ucast (offset (write_index (header f))) + of_nat (length b)) mod impl_size q))"
  using assms
  by (auto simp add: send_message_def Let_def split: if_splits sum.splits)

lemma unat_add_small:
  fixes x y :: u64
  assumes "unat x + unat y < 2 ^ 64"
  shows "unat (x + y) = unat x + unat y"
  using assms by (simp add: unat_add_lem [THEN iffD1])

lemma send_message_succeeds:
  assumes pub: "impl_is_publisher q"
    and len: "length b \<le> unat (impl_size q)"
    and nz: "impl_size q \<noteq> 0"
    and big: "unat (impl_size q) < 2 ^ 63"
    and dat: "length (data f) = unat (impl_size q)"
    and off: "unat (offset (write_index (header f))) \<le> unat (impl_size q)"
  shows "\<exists>f'. send_message q f b = Inr f'"
proof -
  define n :: u64 where "n = of_nat (length b)"
  define off :: u64 where "off = ucast (offset (write_index (header f)))"
  have un: "unat n = length b"
    unfolding n_def using len by (rule le_unat_uoi)
  have uoff: "unat off = unat (offset (write_index (header f)))"
    unfolding off_def by (rule unat_ucast_u32)
  have nle: "n \<le> impl_size q"
    using len un by (simp add: word_le_nat_alt)
  then have nn: "\<not> impl_size q < n"
    by simp
  have offle: "off \<le> impl_size q"
    using off uoff by (simp add: word_le_nat_alt)
  have sum: "unat off + unat n < 2 ^ 64"
    using off uoff un len big by simp
  show ?thesis
  proof (cases "impl_size q < off + n")
    case True
    have s1: "unat (impl_size q - off) = unat (impl_size q) - unat off"
      using offle by (simp add: unat_sub)
    have le2: "impl_size q - off \<le> n"
      using True sum offle
      by (simp add: word_less_nat_alt word_le_nat_alt unat_add_small unat_sub)
    have s2: "unat (n - (impl_size q - off)) = unat n - (unat (impl_size q) - unat off)"
      using le2 s1 by (simp add: unat_sub)
    have le2n: "unat (impl_size q) - unat off \<le> length b"
      using le2 s1 un by (simp add: word_le_nat_alt)
    have "unat off + unat (impl_size q - off) \<le> length (data f)"
      using dat s1 offle by (simp add: word_le_nat_alt)
    moreover have "0 + unat (impl_size q - off) \<le> length b"
      using le2n s1 by simp
    ultimately obtain d1 where
      c1: "memcpy (data f) (unat off) b 0 (unat (impl_size q - off)) = Inr d1"
      using memcpy_ok by blast
    have l1: "length d1 = unat (impl_size q)"
      using memcpy_length [OF c1] dat by simp
    have "0 + unat (n - (impl_size q - off)) \<le> length d1"
      using l1 s2 un len by simp
    moreover have "unat (impl_size q - off) + unat (n - (impl_size q - off)) \<le> length b"
      using s1 s2 un le2n by simp
    ultimately obtain d2 where
      c2: "memcpy d1 0 b (unat (impl_size q - off)) (unat (n - (impl_size q - off))) = Inr d2"
      using memcpy_ok by blast
    show ?thesis
      unfolding send_message_def Let_def n_def [symmetric] off_def [symmetric]
      by (simp only: pub nn True c1 c2 nz if_True if_False not_True_eq_False
          not_False_eq_True sum.case) blast
  next
    case False
    have "unat off + unat n \<le> unat (impl_size q)"
      using False sum by (simp add: word_less_nat_alt unat_add_small)
    then have "unat off + unat n \<le> length (data f)" and "0 + unat n \<le> length b"
      using dat un by simp_all
    then obtain d where
      c: "memcpy (data f) (unat off) b 0 (unat n) = Inr d"
      using memcpy_ok by blast
    show ?thesis
      unfolding send_message_def Let_def n_def [symmetric] off_def [symmetric]
      by (simp only: pub nn False c nz if_True if_False not_True_eq_False
          not_False_eq_True sum.case) blast
  qed
qed

lemma unat_ucast_down: "unat (ucast (x :: u64) :: u32) = unat x mod 2 ^ 32"
  by (simp add: unsigned_ucast_eq take_bit_eq_mod)

lemma send_message_offset_nat:
  assumes ok: "send_message q f b = Inr f'"
    and len: "length b \<le> unat (impl_size q)"
    and big: "unat (impl_size q) < 2 ^ 63"
  shows "unat (offset (write_index (header f'))) =
    ((unat (offset (write_index (header f))) + length b) mod unat (impl_size q)) mod 2 ^ 32"
proof -
  define n :: u64 where "n = of_nat (length b)"
  define off :: u64 where "off = ucast (offset (write_index (header f)))"
  have un: "unat n = length b"
    unfolding n_def using len by (rule le_unat_uoi)
  have uoff: "unat off = unat (offset (write_index (header f)))"
    unfolding off_def by (rule unat_ucast_u32)
  have "unat (offset (write_index (header f))) < 2 ^ 32"
    using unsigned_less [of "offset (write_index (header f))", where 'a = nat] by simp
  then have sum: "unat off + unat n < 2 ^ 64"
    using uoff un len big by simp
  have "offset (write_index (header f')) = ucast ((off + n) mod impl_size q)"
    unfolding send_message_write_index [OF ok] offset_PackedPointer n_def off_def ..
  then show ?thesis
    using sum uoff un by (simp add: unat_ucast_down unat_mod_distrib unat_add_small)
qed

lemma send_message_cycle:
  assumes ok: "send_message q f b = Inr f'"
  shows "cycle (write_index (header f')) = cycle (write_index (header f)) + 1"
  unfolding send_message_write_index [OF ok] cycle_PackedPointer ..


subsection \<open>The subscriber check and the readers loop\<close>

lemma mod_of_signed:
  fixes k m :: int
  assumes "- m \<le> k" "k < m" "0 < m"
  shows "k mod m = (if k < 0 then k + m else k)"
proof (cases "k < 0")
  case True
  have "k mod m = (k + m) mod m" by simp
  also have "\<dots> = k + m" by (rule mod_pos_pos_trivial) (use True assms in simp_all)
  finally show ?thesis using True by simp
next
  case False
  then show ?thesis using assms by (simp add: mod_pos_pos_trivial)
qed

lemma subscriber_check:
  fixes w :: u32
  shows "(of_nat NUM_READERS :: u64) \<le> word_of_int (sint w) \<longleftrightarrow> NUM_READERS \<le> unat w"
proof -
  have r: "- (2 ^ 31) \<le> sint w" "sint w < 2 ^ 31"
    using sint_ge [of w] sint_lt [of w] by simp_all
  have u32: "uint w = sint w mod 2 ^ 32"
    using uint_sint [of w] by (simp add: take_bit_eq_mod)
  have u64: "uint (word_of_int (sint w) :: u64) = sint w mod 2 ^ 64"
    using uint_word_of_int [of "sint w", where 'a = 64] by simp
  have m32: "sint w mod 2 ^ 32 = (if sint w < 0 then sint w + 2 ^ 32 else sint w)"
    using r by (intro mod_of_signed) simp_all
  have m64: "sint w mod 2 ^ 64 = (if sint w < 0 then sint w + 2 ^ 64 else sint w)"
    using r by (intro mod_of_signed) simp_all
  have l: "uint (of_nat NUM_READERS :: u64) = 15"
    by (simp add: NUM_READERS_def)
  have iu: "int (unat w) = uint w"
    by simp
  have "NUM_READERS \<le> unat w \<longleftrightarrow> 15 \<le> uint w"
    unfolding NUM_READERS_def using iu by linarith
  moreover have "15 \<le> uint w \<longleftrightarrow> 15 \<le> sint w mod 2 ^ 64"
    unfolding u32 m32 m64 using r by auto
  ultimately show ?thesis
    unfolding word_le_def l u64 by simp
qed

lemma sint_small:
  fixes w :: u32
  assumes "unat w < NUM_READERS"
  shows "sint w = int (unat w)"
proof -
  have iu: "int (unat w) = uint w"
    by simp
  have "uint w < 15"
    using assms iu unfolding NUM_READERS_def by linarith
  moreover have "0 \<le> uint w"
    by simp
  ultimately have "uint w < 2147483648" and "- 2147483648 \<le> uint w"
    by linarith+
  then have "signed_take_bit 31 (uint w) = uint w"
    by (simp add: signed_take_bit_int_eq_self)
  then have "sint w = uint w"
    by (simp add: sint_uint)
  then show ?thesis
    using iu by simp
qed

lemma all_readers_loop_eq:
  assumes "unat (num_readers h) \<le> NUM_READERS"
  shows "all_readers_loop h w i =
    Inr (\<forall>k. i \<le> k \<and> k < unat (num_readers h) \<longrightarrow> read_index h ! k = w)"
  using assms
proof (induction h w i rule: all_readers_loop.induct)
  case (1 h w i)
  show ?case
  proof (cases "i < unat (num_readers h)")
    case False
    then show ?thesis by (auto simp add: all_readers_loop.simps [of h w i])
  next
    case True
    then have ld: "load_read_index h (int i) = Inr (read_index h ! i)"
      using "1.prems" by (simp add: load_read_index_def)
    show ?thesis
    proof (cases "read_index h ! i = w")
      case False
      then show ?thesis
        using True ld by (auto simp add: all_readers_loop.simps [of h w i])
    next
      case eq: True
      have "all_readers_loop h w (Suc i) =
          Inr (\<forall>k. Suc i \<le> k \<and> k < unat (num_readers h) \<longrightarrow> read_index h ! k = w)"
        using "1.IH" [OF True ld] eq "1.prems" by simp
      moreover have "(\<forall>k. Suc i \<le> k \<and> k < unat (num_readers h) \<longrightarrow> read_index h ! k = w) =
          (\<forall>k. i \<le> k \<and> k < unat (num_readers h) \<longrightarrow> read_index h ! k = w)"
        using eq by (metis Suc_leI le_neq_implies_less Suc_leD)
      ultimately show ?thesis
        using True ld eq by (simp add: all_readers_loop.simps [of h w i])
    qed
  qed
qed

subsection \<open>Opening, sending and receiving\<close>

lemma os_ftruncate_same:
  "length (data f) = n \<Longrightarrow> os_ftruncate f (sizeof_Header + n) = f"
  by (simp add: os_ftruncate_def)

lemma os_ftruncate_whole:
  "header (os_ftruncate f (sizeof_Header + n)) = header f"
  "length (data (os_ftruncate f (sizeof_Header + n))) = n"
  by (simp_all add: os_ftruncate_def)

lemma total_size_small:
  fixes sz :: u64
  assumes "sizeof_Header + unat sz < 2 ^ 63"
  shows "unat ((of_nat sizeof_Header :: u64) + sz) = sizeof_Header + unat sz"
    and "\<not> sint ((of_nat sizeof_Header :: u64) + sz) < 0"
    and "(of_nat sizeof_Header :: u64) + sz \<noteq> 0"
proof -
  have h: "unat (of_nat sizeof_Header :: u64) = sizeof_Header"
    by (simp add: sizeof_Header_def)
  have "unat (of_nat sizeof_Header :: u64) + unat sz < 2 ^ 64"
    using assms h by simp
  then show u: "unat ((of_nat sizeof_Header :: u64) + sz) = sizeof_Header + unat sz"
    using h by (simp add: unat_add_small)
  have iu: "int (unat ((of_nat sizeof_Header :: u64) + sz)) = uint ((of_nat sizeof_Header :: u64) + sz)"
    by simp
  have lt: "unat ((of_nat sizeof_Header :: u64) + sz) < 9223372036854775808"
    using assms u by simp
  have nn: "0 \<le> uint ((of_nat sizeof_Header :: u64) + sz)"
    by simp
  have "uint ((of_nat sizeof_Header :: u64) + sz) < 9223372036854775808"
    and "- 9223372036854775808 \<le> uint ((of_nat sizeof_Header :: u64) + sz)"
    using lt iu nn by linarith+
  then have "signed_take_bit 63 (uint ((of_nat sizeof_Header :: u64) + sz)) =
      uint ((of_nat sizeof_Header :: u64) + sz)"
    by (simp add: signed_take_bit_int_eq_self)
  then have "sint ((of_nat sizeof_Header :: u64) + sz) = uint ((of_nat sizeof_Header :: u64) + sz)"
    by (simp add: sint_uint)
  then show "\<not> sint ((of_nat sizeof_Header :: u64) + sz) < 0"
    by simp
  show "(of_nat sizeof_Header :: u64) + sz \<noteq> 0"
    using u by (auto simp add: sizeof_Header_def)
qed

lemma Queue_create_NoFault:
  assumes "sizeof_Header + unat (align_to_8 sz) < 2 ^ 63"
  shows "Queue_create NoFault fs name sz =
    (fs(name \<mapsto> os_ftruncate (os_open fs name) (sizeof_Header + unat (align_to_8 sz))),
     Inr (Some \<lparr>impl_name = name, impl_size = align_to_8 sz, impl_reader_id = - 1,
       impl_is_publisher = False\<rparr>))"
  using total_size_small [OF assms]
  by (simp add: Queue_create_def Impl_new_def init_shared_memory_def Let_def)

lemma fresh_segment_simps:
  "header (fresh_segment n) = zero_Header" "data (fresh_segment n) = replicate n 0"
  by (simp_all add: fresh_segment_def os_ftruncate_def empty_file_def)

lemma send_message_header:
  assumes "send_message q f b = Inr f'"
  shows "header f' = (header f)\<lparr>write_index :=
    PackedPointer (cycle (write_index (header f)) + 1)
      (ucast ((ucast (offset (write_index (header f))) + of_nat (length b)) mod impl_size q))\<rparr>"
  using assms
  by (auto simp add: send_message_def Let_def split: if_splits sum.splits)

lemma receive_message_empty:
  assumes "receive_message q f t c = Inr (m, f')"
  shows "m = []"
  using assms
  by (auto simp add: receive_message_def Let_def split: if_splits sum.splits)

lemma framing_roundtrip_empty:
  assumes nz: "align_to_8 sz \<noteq> 0"
    and big: "sizeof_Header + unat (align_to_8 sz) < 2 ^ 63"
    and len: "length b \<le> unat (align_to_8 sz)"
  shows "\<exists>f. framing_roundtrip sz b = Inr ([], f)"
proof -
  define S where "S = align_to_8 sz"
  define q0 where "q0 = \<lparr>impl_name = ''chan'', impl_size = S, impl_reader_id = - 1,
       impl_is_publisher = False\<rparr>"
  define f0 where "f0 = fresh_segment (unat S)"
  define f1 where "f1 = f0\<lparr>header := (header f0)\<lparr>num_readers := num_readers (header f0) + 1\<rparr>\<rparr>"
  have c1: "Queue_create NoFault Map.empty ''chan'' sz = ([''chan'' \<mapsto> f0], Inr (Some q0))"
    using big by (simp add: Queue_create_NoFault q0_def f0_def S_def fresh_segment_def os_open_def)
  have c2: "Queue_create NoFault [''chan'' \<mapsto> f0] ''chan'' sz = ([''chan'' \<mapsto> f0], Inr (Some q0))"
    using big
    by (simp add: Queue_create_NoFault q0_def f0_def S_def os_open_def os_ftruncate_same
        fresh_segment_simps)
  have ip: "init_publisher (Some q0) = Inr (Some (q0\<lparr>impl_is_publisher := True\<rparr>))"
    by (simp add: init_publisher_def)
  have op: "os_open [''chan'' \<mapsto> f0] ''chan'' = f0"
    by (simp add: os_open_def)
  have isub: "init_subscriber (Some q0) f0 False = (Some (q0\<lparr>impl_reader_id := 0\<rparr>), f1, None)"
    by (simp add: init_subscriber_def Let_def f0_def f1_def fresh_segment_simps zero_Header_def
        NUM_READERS_def)
  have h1: "write_index (header f1) = 0" "read_index (header f1) = replicate NUM_READERS 0"
    "data f1 = replicate (unat S) 0"
    by (simp_all add: f1_def f0_def fresh_segment_simps zero_Header_def)
  have "\<exists>f2. send_message (q0\<lparr>impl_is_publisher := True\<rparr>) f1 b = Inr f2"
    using nz big len h1
    by (intro send_message_succeeds) (simp_all add: q0_def S_def offset_def sizeof_Header_def)
  then obtain f2 where sm: "send_message (q0\<lparr>impl_is_publisher := True\<rparr>) f1 b = Inr f2" ..
  have w2: "cycle (write_index (header f2)) = 1"
    using send_message_cycle [OF sm] h1 by (simp add: cycle_def)
  then have ne: "write_index (header f2) \<noteq> 0"
    by (auto simp add: cycle_def)
  have r2: "read_index (header f2) = replicate NUM_READERS 0"
    using send_message_header [OF sm] h1 by simp
  have "\<exists>f3. receive_message (q0\<lparr>impl_reader_id := 0\<rparr>) f2 DEFAULT_TIMEOUT_MS False = Inr ([], f3)"
    using ne r2
    by (simp add: receive_message_def load_read_index_def store_read_index_def Let_def
        NUM_READERS_def)
  then obtain f3 where
    rm: "receive_message (q0\<lparr>impl_reader_id := 0\<rparr>) f2 DEFAULT_TIMEOUT_MS False = Inr ([], f3)" ..
  show ?thesis
    unfolding framing_roundtrip_def
    by (simp add: c1 ip c2 op isub Queue_send_def Queue_recv_def sm rm)
qed

lemma Queue_create_same_outcome:
  "snd (Queue_create os fs name sz) = snd (Queue_create os fs' name sz)"
  by (simp add: Queue_create_def Impl_new_def init_shared_memory_def Let_def)

lemma create_wrapping_size:
  "snd (Queue_create NoFault [''chan'' \<mapsto> segment_at 64 3 40] ''chan'' 0xFFFFFFFFFFFFFFF8) =
     Inr (Some (created_handle 0xFFFFFFFFFFFFFFF8)) \<and>
   map_option data
     (fst (Queue_create NoFault [''chan'' \<mapsto> segment_at 64 3 40] ''chan'' 0xFFFFFFFFFFFFFFF8)
       ''chan'') = Some [] \<and>
   map_option (\<lambda>f. write_index (header f))
     (fst (Queue_create NoFault [''chan'' \<mapsto> segment_at 64 3 40] ''chan'' 0xFFFFFFFFFFFFFFF8)
       ''chan'') = Some (PackedPointer 3 40) \<and>
   snd (Queue_create NoFault Map.empty ''chan'' 0x7FFFFFFFFFFFFFF8) = Inl TruncateFailed \<and>
   snd (Queue_create NoFault Map.empty ''chan'' 0xFFFFFFFFFFFFFF70) = Inl MmapFailed"
  by (simp add: Queue_create_def Impl_new_def init_shared_memory_def Let_def align_to_8_def
      sizeof_Header_def os_open_def os_ftruncate_def cut_header_def segment_at_def
      created_handle_def take_bit_word_beyond_length_eq)

lemma init_subscriber_None:
  assumes "init_subscriber (Some i) f conflate = (q', f', None)"
  shows "unat (num_readers (header f)) < NUM_READERS"
    and "q' = Some (i\<lparr>impl_reader_id := int (unat (num_readers (header f)))\<rparr>)"
    and "f' = f\<lparr>header := (header f)\<lparr>num_readers := num_readers (header f) + 1\<rparr>\<rparr>"
proof -
  have chk: "\<not> (of_nat NUM_READERS :: u64) \<le> word_of_int (sint (num_readers (header f)))"
    using assms by (auto simp add: init_subscriber_def Let_def split: if_splits)
  then show lt: "unat (num_readers (header f)) < NUM_READERS"
    using subscriber_check [of "num_readers (header f)"] by simp
  show "q' = Some (i\<lparr>impl_reader_id := int (unat (num_readers (header f)))\<rparr>)"
    using assms sint_small [OF lt] by (auto simp add: init_subscriber_def Let_def split: if_splits)
  show "f' = f\<lparr>header := (header f)\<lparr>num_readers := num_readers (header f) + 1\<rparr>\<rparr>"
    using assms by (auto simp add: init_subscriber_def Let_def split: if_splits)
qed

section \<open>The claims about the queue\<close>

text \<open>
  Claim C1. On a fresh channel of 1024 bytes, with one publisher and one subscriber
  that joined before the send, the publisher sends the one byte \<open>A\<close> and the
  subscriber receives once: the byte is in the data region and both cursors are at
  cycle 1, offset 1, but the message returned is empty.
\<close>

theorem recv_drops_sent_payload:
  "\<exists>f. framing_roundtrip 1024 [65] = Inr ([], f) \<and>
     take 1 (data f) = [65] \<and>
     write_index (header f) = PackedPointer 1 1 \<and>
     read_index (header f) ! 0 = PackedPointer 1 1"
  by (simp add: framing_roundtrip_def Queue_create_def Impl_new_def init_shared_memory_def
      Let_def align_to_8_def sizeof_Header_def os_open_def os_ftruncate_def empty_file_def
      zero_Header_def NUM_READERS_def init_publisher_def init_subscriber_def Queue_send_def
      Queue_recv_def send_message_def memcpy_def receive_message_def load_read_index_def
      store_read_index_def DEFAULT_TIMEOUT_MS_def)
    (simp add: PackedPointer_def cycle_def offset_def)

text \<open>
  Claim C2 (amended). Every send of a payload of length \<open>n\<close> that fits the segment
  increments the cycle counter by one, wrap or no wrap, and moves the offset to
  \<open>(offset + n) mod size_\<close> (kept in 32 bits): the cursor advances by the payload's
  length, with no frame header and no rounding to 8. The claim as stated fails on the
  first send of one byte into a segment of 1024 bytes, which leaves the cursor at cycle
  1, offset 1 and not at cycle 0, offset 16.
\<close>

theorem send_advances_write_cursor:
  assumes "impl_is_publisher q"
    and "length b \<le> unat (impl_size q)"
    and "impl_size q \<noteq> 0"
    and "unat (impl_size q) < 2 ^ 63"
    and "length (data f) = unat (impl_size q)"
    and "unat (offset (write_index (header f))) \<le> unat (impl_size q)"
  shows "\<exists>f'. send_message q f b = Inr f' \<and>
    cycle (write_index (header f')) = cycle (write_index (header f)) + 1 \<and>
    unat (offset (write_index (header f'))) =
      ((unat (offset (write_index (header f))) + length b) mod unat (impl_size q)) mod 2 ^ 32"
proof -
  obtain f' where ok: "send_message q f b = Inr f'"
    using send_message_succeeds [OF assms] ..
  show ?thesis
    using ok send_message_cycle [OF ok] send_message_offset_nat [OF ok assms(2) assms(4)]
    by blast
qed

theorem send_advances_write_cursor_witness:
  "impl_is_publisher (publisher_handle 64) \<and>
   length (replicate 24 (7 :: byte)) \<le> unat (impl_size (publisher_handle 64)) \<and>
   impl_size (publisher_handle 64) \<noteq> 0 \<and>
   unat (impl_size (publisher_handle 64)) < 2 ^ 63 \<and>
   length (data (segment_at 64 0 48)) = unat (impl_size (publisher_handle 64)) \<and>
   unat (offset (write_index (header (segment_at 64 0 48)))) \<le>
     unat (impl_size (publisher_handle 64)) \<and>
   (\<exists>f'. send_message (publisher_handle 64) (segment_at 64 0 48) (replicate 24 7) = Inr f' \<and>
     cycle (write_index (header f')) = 1 \<and>
     unat (offset (write_index (header f'))) = 8)"
  using send_advances_write_cursor [of "publisher_handle 64" "replicate 24 7" "segment_at 64 0 48"]
  by (simp add: publisher_handle_def created_handle_def segment_at_def fresh_segment_simps
      cycle_PackedPointer offset_PackedPointer)

theorem send_cursor_counterexample:
  "\<exists>f'. send_message (publisher_handle 1024) (fresh_segment 1024) [65] = Inr f' \<and>
     cycle (write_index (header f')) = 1 \<and>
     offset (write_index (header f')) = 1 \<and>
     cycle (write_index (header f')) \<noteq> cycle (write_index (header (fresh_segment 1024))) \<and>
     unat (offset (write_index (header f'))) \<noteq>
       unat (offset (write_index (header (fresh_segment 1024)))) + unat (align_to_8 (8 + 1))"
  by (simp add: send_message_def Let_def memcpy_def publisher_handle_def created_handle_def
      fresh_segment_simps zero_Header_def cycle_PackedPointer offset_PackedPointer
      align_to_8_def)
    (simp add: cycle_def offset_def)

text \<open>
  Claim C3 (amended). Opening an existing segment again, with any requested size, ends
  as opening the same name on an empty /dev/shm does: with the same error of
  \<open>open\<close>, \<open>ftruncate\<close> or \<open>mmap\<close>, or with success. Nothing compares the
  requested size with the size stored, and no size-mismatch error exists. When the
  three calls succeed and \<open>sizeof(Header) + size_\<close> is below \<open>2^63\<close>, where
  \<open>size_\<close> is the requested size rounded up to 8, the open succeeds, leaves the
  header as it is (\<open>segment_size\<close> included, which is never written), and resizes
  the data region of the file to \<open>size_\<close>. The claim as stated fails: a segment
  created with 64 bytes and opened with 128 gives no error and a file of 128 data
  bytes.
\<close>

theorem reopen_resizes_without_error:
  assumes "fs name = Some f"
    and "sizeof_Header + unat (align_to_8 sz) < 2 ^ 63"
  shows "snd (Queue_create os fs name sz') = snd (Queue_create os Map.empty name sz') \<and>
    (\<exists>fs' q f'. Queue_create NoFault fs name sz = (fs', Inr (Some q)) \<and>
       impl_size q = align_to_8 sz \<and>
       fs' name = Some f' \<and>
       header f' = header f \<and>
       length (data f') = unat (align_to_8 sz))"
  using assms Queue_create_same_outcome [of os fs name sz' Map.empty]
  by (simp add: Queue_create_NoFault os_open_def os_ftruncate_whole)

theorem reopen_resizes_without_error_witness:
  "[''chan'' \<mapsto> segment_at 64 3 40] ''chan'' = Some (segment_at 64 3 40) \<and>
   sizeof_Header + unat (align_to_8 128) < 2 ^ 63 \<and>
   write_index (header (segment_at 64 3 40)) = PackedPointer 3 40 \<and>
   length (data (segment_at 64 3 40)) = 64 \<and>
   (\<exists>fs' q f'. Queue_create NoFault [''chan'' \<mapsto> segment_at 64 3 40] ''chan'' 128 =
       (fs', Inr (Some q)) \<and>
     impl_size q = 128 \<and> fs' ''chan'' = Some f' \<and>
     header f' = header (segment_at 64 3 40) \<and> length (data f') = 128)"
  using reopen_resizes_without_error [of "[''chan'' \<mapsto> segment_at 64 3 40]" "''chan''"
      "segment_at 64 3 40" 128 NoFault 128]
  by (simp add: align_to_8_def sizeof_Header_def segment_at_def fresh_segment_simps)

theorem reopen_size_mismatch_counterexample:
  "snd (Queue_create NoFault [''chan'' \<mapsto> fresh_segment 64] ''chan'' 128) =
     Inr (Some (created_handle 128)) \<and>
   map_option (\<lambda>f. length (data f)) ([''chan'' \<mapsto> fresh_segment 64] ''chan'') = Some 64 \<and>
   map_option (\<lambda>f. length (data f))
     (fst (Queue_create NoFault [''chan'' \<mapsto> fresh_segment 64] ''chan'' 128) ''chan'') = Some 128"
  by (simp add: Queue_create_def Impl_new_def init_shared_memory_def Let_def align_to_8_def
      sizeof_Header_def os_open_def os_ftruncate_def fresh_segment_def empty_file_def
      created_handle_def)

text \<open>
  Claim C4 (amended). A successful \<open>init_subscriber\<close> gives the handle the slot
  whose index is the previous \<open>num_readers\<close> (below 15) and increments
  \<open>num_readers\<close>; nothing else changes. It writes no cursor: the new reader's
  cursor and the write cursor are what they were before the call, so after
  registration the cursor equals the write cursor only if it already did. The claim
  as stated fails for a subscriber that joins after a first send: its cursor is 0 and
  the write cursor is cycle 1, offset 1.
\<close>

theorem init_subscriber_keeps_cursors:
  assumes "init_subscriber (Some i) f conflate = (q', f', None)"
  shows "unat (num_readers (header f)) < NUM_READERS \<and>
    q' = Some (i\<lparr>impl_reader_id := int (unat (num_readers (header f)))\<rparr>) \<and>
    f' = f\<lparr>header := (header f)\<lparr>num_readers := num_readers (header f) + 1\<rparr>\<rparr> \<and>
    read_index (header f') = read_index (header f) \<and>
    write_index (header f') = write_index (header f)"
  using init_subscriber_None [OF assms] by simp

theorem init_subscriber_keeps_cursors_witness:
  "init_subscriber (Some (created_handle 64)) (segment_at 64 1 1) False =
     (Some ((created_handle 64)\<lparr>impl_reader_id := 0\<rparr>),
      (segment_at 64 1 1)\<lparr>header := (header (segment_at 64 1 1))\<lparr>num_readers := 1\<rparr>\<rparr>, None) \<and>
   read_index (header ((segment_at 64 1 1)\<lparr>header :=
     (header (segment_at 64 1 1))\<lparr>num_readers := 1\<rparr>\<rparr>)) ! 0 = 0 \<and>
   write_index (header ((segment_at 64 1 1)\<lparr>header :=
     (header (segment_at 64 1 1))\<lparr>num_readers := 1\<rparr>\<rparr>)) = PackedPointer 1 1 \<and>
   PackedPointer 1 1 \<noteq> (0 :: u64)"
proof -
  have a: "init_subscriber (Some (created_handle 64)) (segment_at 64 1 1) False =
     (Some ((created_handle 64)\<lparr>impl_reader_id := 0\<rparr>),
      (segment_at 64 1 1)\<lparr>header := (header (segment_at 64 1 1))\<lparr>num_readers := 1\<rparr>\<rparr>, None)"
    by (simp add: init_subscriber_def Let_def segment_at_def fresh_segment_simps zero_Header_def
        NUM_READERS_def)
  have "PackedPointer 1 1 \<noteq> (0 :: u64)"
    by (simp add: PackedPointer_def)
  then show ?thesis
    using init_subscriber_keeps_cursors [OF a] a
    by (simp add: segment_at_def fresh_segment_simps zero_Header_def NUM_READERS_def)
qed

theorem late_subscriber_cursor_counterexample:
  "\<exists>q f. late_join 1024 [65] = Inr (Some q, f) \<and>
     impl_reader_id q = 0 \<and>
     read_index (header f) ! 0 = 0 \<and>
     write_index (header f) = PackedPointer 1 1 \<and>
     read_index (header f) ! 0 \<noteq> write_index (header f)"
  by (simp add: late_join_def Queue_create_def Impl_new_def init_shared_memory_def Let_def
      align_to_8_def sizeof_Header_def os_open_def os_ftruncate_def empty_file_def
      zero_Header_def NUM_READERS_def init_publisher_def init_subscriber_def Queue_send_def
      send_message_def memcpy_def)
    (simp add: PackedPointer_def cycle_def offset_def)




text \<open>
  Claim C6 (amended). With at most 15 slots claimed, \<open>all_readers_updated\<close> is
  true if and only if the cursor of every slot below \<open>num_readers\<close> equals the write
  cursor; the slots at or above \<open>num_readers\<close> are not looked at. Nothing in the
  header says whether the owner of a slot is alive, so a claimed slot counts whoever
  owns it. The claim as stated fails when the only claimed slot lags behind and its
  owner is dead: the code answers false, the claim's wording true.
\<close>

theorem all_readers_updated_iff:
  assumes "unat (num_readers (header f)) \<le> NUM_READERS"
  shows "all_readers_updated (Some i) f =
    Inr (\<forall>k < unat (num_readers (header f)). read_index (header f) ! k = write_index (header f))"
  using all_readers_loop_eq [OF assms, of "write_index (header f)" 0]
  by (simp add: all_readers_updated_def)

theorem all_readers_updated_iff_witness:
  "unat (num_readers (header ((fresh_segment 64)\<lparr>header :=
       zero_Header\<lparr>num_readers := 1, write_index := PackedPointer 1 1\<rparr>\<rparr>))) \<le> NUM_READERS \<and>
   all_readers_updated (Some (publisher_handle 64))
     ((fresh_segment 64)\<lparr>header := zero_Header\<lparr>num_readers := 1,
        write_index := PackedPointer 1 1\<rparr>\<rparr>) = Inr False"
  using all_readers_updated_iff [of "(fresh_segment 64)\<lparr>header :=
       zero_Header\<lparr>num_readers := 1, write_index := PackedPointer 1 1\<rparr>\<rparr>" "publisher_handle 64"]
  by (simp add: zero_Header_def NUM_READERS_def PackedPointer_def)

theorem dead_reader_counterexample:
  "all_readers_updated (Some (publisher_handle 64))
     ((fresh_segment 64)\<lparr>header := zero_Header\<lparr>num_readers := 1,
        write_index := PackedPointer 1 1\<rparr>\<rparr>) = Inr False \<and>
   spec_all_readers_updated (\<lambda>i. False)
     (zero_Header\<lparr>num_readers := 1, write_index := PackedPointer 1 1\<rparr>)"
  by (simp add: all_readers_updated_def all_readers_loop.simps load_read_index_def
      zero_Header_def NUM_READERS_def PackedPointer_def spec_all_readers_updated_def)

text \<open>
  Claim C9. On the handle \<open>Queue::create\<close> returns, before any
  \<open>init_subscriber\<close>, \<open>msg_ready\<close> loads \<open>read_index[-1]\<close>: the index is
  outside \<open>0..14\<close>.
\<close>

theorem msg_ready_index_unchecked:
  "\<exists>fs q. Queue_create NoFault Map.empty ''chan'' 1024 = (fs, Inr (Some q)) \<and>
     msg_ready_index q = - 1 \<and>
     msg_ready (Some q) (os_open fs ''chan'') = Inl (OutOfBounds (- 1))"
  by (simp add: Queue_create_def Impl_new_def init_shared_memory_def Let_def
      align_to_8_def sizeof_Header_def msg_ready_def msg_ready_index_def load_read_index_def)

text \<open>
  Claim C10. With all 15 slots in use, \<open>init_subscriber\<close> throws the
  maximum-number-of-subscribers error after it has incremented \<open>num_readers\<close> to 16
  and set the handle's \<open>reader_id_\<close> to 15. On the header it leaves,
  \<open>all_readers_updated\<close> runs its loop up to \<open>read_index[15]\<close>.
\<close>

theorem init_subscriber_failure_increments:
  "init_subscriber (Some (created_handle 64))
     ((fresh_segment 64)\<lparr>header := zero_Header\<lparr>num_readers := 15\<rparr>\<rparr>) False =
   (Some ((created_handle 64)\<lparr>impl_reader_id := 15\<rparr>),
    (fresh_segment 64)\<lparr>header := zero_Header\<lparr>num_readers := 16\<rparr>\<rparr>,
    Some MaxSubscribers) \<and>
   all_readers_updated (Some (created_handle 64))
     ((fresh_segment 64)\<lparr>header := zero_Header\<lparr>num_readers := 16\<rparr>\<rparr>) =
     Inl (OutOfBounds 15)"
  by (simp add: init_subscriber_def Let_def fresh_segment_simps zero_Header_def NUM_READERS_def
      all_readers_updated_def all_readers_loop.simps load_read_index_def)

section \<open>Properties of the events and the fake subscriber\<close>

subsection \<open>wait_for_one\<close>

lemma first_pollin_least:
  assumes "first_pollin rs i = Some j"
  shows "i \<le> j \<and> j - i < length rs \<and> rs ! (j - i) = POLLIN \<and>
    (\<forall>k < j - i. rs ! k \<noteq> POLLIN)"
  using assms
proof (induction rs arbitrary: i)
  case Nil
  then show ?case by simp
next
  case (Cons r rs)
  show ?case
  proof (cases "r = POLLIN")
    case True
    then show ?thesis using Cons.prems by simp
  next
    case False
    then have "first_pollin rs (Suc i) = Some j"
      using Cons.prems by simp
    from Cons.IH [OF this] have ih: "Suc i \<le> j" "j - Suc i < length rs"
      "rs ! (j - Suc i) = POLLIN" "\<forall>k < j - Suc i. rs ! k \<noteq> POLLIN"
      by simp_all
    have e: "j - i = Suc (j - Suc i)"
      using ih(1) by simp
    show ?thesis
      using ih False unfolding e
      by (auto simp add: nth_Cons less_Suc_eq_0_disj)
  qed
qed

lemma wait_for_one_all_valid:
  assumes "wait_for_one os signal events timeout_sec = Returns i"
    and "list_all is_valid events"
  shows "0 \<le> i \<and> nat i < length events \<and>
    os_revents os (event_fd (events ! nat i)) = POLLIN \<and>
    (\<forall>k < nat i. os_revents os (event_fd (events ! k)) \<noteq> POLLIN)"
proof -
  have f: "filter is_valid events = events"
    using assms(2) by (simp add: list_all_iff)
  obtain j where j: "first_pollin (map (os_revents os) (map event_fd events)) 0 = Some j"
    and i: "i = int j"
    using assms(1) f
    by (auto simp add: wait_for_one_def os_ppoll_def Let_def
        split: if_splits ppoll_result.splits option.splits)
  show ?thesis
    using first_pollin_least [OF j] i by auto
qed

lemma wait_for_one_timeout:
  assumes "filter is_valid events \<noteq> []"
    and "list_all (\<lambda>e. os_revents os (event_fd e) = NoEvent) events"
    and "\<not> signal" and "0 \<le> timeout_sec"
  shows "wait_for_one os signal events timeout_sec = Throws PollTimedOut"
proof -
  have "filter (\<lambda>r. r \<noteq> NoEvent) (map (os_revents os) (map event_fd (filter is_valid events))) = []"
    using assms(2) by (auto simp add: list_all_iff filter_empty_conv)
  then show ?thesis
    using assms(1,3,4) by (auto simp add: wait_for_one_def os_ppoll_def Let_def)
qed

subsection \<open>The rendezvous\<close>





lemma EventPair_clear_other:
  assumes "EventPair_clear os e = Completes (v, os')" "event_fd e \<noteq> fd"
  shows "os' fd = os fd"
  using assms by (auto simp add: EventPair_clear_def split: if_splits option.splits)













lemma Event_agrees_with_EventPair:
  assumes "0 \<le> event_fd e" and "os (event_fd e) = Some c" and "c + 1 \<le> 2 ^ 64 - 2"
  shows "Event_set os e = Inr os' \<longleftrightarrow> EventPair_set os e = Completes os'"
    and "(\<exists>v. Event_clear os e = Inr (v, os')) \<longleftrightarrow> (\<exists>v. EventPair_clear os e = Completes (v, os'))"
    and "Event_wait os signal e (- 1) = Returns () \<longleftrightarrow>
      EventPair_wait os signal e (- 1) = Completes ()"
    and "Event_wait os signal e (- 1) = Blocks \<longleftrightarrow> EventPair_wait os signal e (- 1) = Suspended"
  using assms
  by (auto simp add: Event_set_def EventPair_set_def Event_clear_def EventPair_clear_def
      Event_wait_def EventPair_wait_def os_ppoll_def os_revents_def Let_def)


section \<open>The claims about the events and the fake subscriber\<close>




text \<open>
  Claim C8. With an invalid event first in the caller's list and the second event
  signalled, \<open>wait_for_one\<close> returns 0, the index in its own vector of valid events,
  while the signalled event is at index 1 of the caller's list.
\<close>

theorem wait_for_one_index_shift:
  "wait_for_one [5 \<mapsto> 1] False [Event (- 1), Event 5] (- 1) = Returns 0 \<and>
   \<not> peek [5 \<mapsto> 1] ([Event (- 1), Event 5] ! 0) \<and>
   peek [5 \<mapsto> 1] ([Event (- 1), Event 5] ! 1)"
  by (simp add: wait_for_one_def peek_def is_valid_def os_ppoll_def os_revents_def Let_def)

end
